theory Spec2Isabelle
  imports Complex_Main
begin

unbundle bit_operations_syntax

text \<open>
  The Room Finder skill: the requesters that talk to the calendar service
  (lambda/requesters.js) and the intent handlers with their helper functions
  (lambda/index.js), as functions over explicit state. One invocation of the skill is one
  application of \<open>handler\<close> to the incoming session attributes; the remote side, the
  clock and the libraries are parameters.
\<close>

section \<open>Requesters (lambda/requesters.js)\<close>

subsection \<open>Data\<close>

text \<open>
  A calendar of the directory query is \<open>{id, name, owner: {name, address}}\<close>. The
  owner's \<open>name\<close> field is called \<open>owner_name\<close> here, since a record field name is
  global. The credentials object that \<open>findFreeRoom\<close> resolves to has the fields
  \<open>ownerName\<close>, \<open>ownerAddress\<close>, \<open>name\<close>; they carry the prefix \<open>creds_\<close>, the session
  attributes of index.js own the unprefixed names.
\<close>

record owner =
  owner_name :: string
  address :: string

record calendar =
  cal_id :: string
  name :: string
  owner :: owner

record creds =
  creds_ownerName :: string
  creds_ownerAddress :: string
  creds_name :: string

record event =
  subject :: string

text \<open>
  The \<open>error\<close> member of a response body of the remote side.
\<close>

record api_error =
  code :: string
  message :: string

text \<open>
  What \<open>JSON.parse(body)\<close> makes of the body handed to a callback of \<open>request\<close>: it
  throws a SyntaxError (the body is \<open>undefined\<close>, as after a transport failure, or is
  not JSON text), or it yields an object whose members \<open>error\<close> and \<open>value\<close> are
  present or \<open>undefined\<close>. Bodies are taken to be objects when they parse.
\<close>

datatype exn = SyntaxError | TypeError

datatype 'v parsedBody = ParsedBody (body_error: "api_error option") (body_value: "'v option")

datatype 'v body = Unparseable | Json "'v parsedBody"

fun JSON_parse :: "'v body \<Rightarrow> exn + 'v parsedBody" where
  "JSON_parse Unparseable = Inl SyntaxError"
| "JSON_parse (Json b) = Inr b"

text \<open>
  The arguments \<open>(err, response, body)\<close> of a callback: \<open>err\<close> is \<open>null\<close> (\<open>None\<close>) or an
  error; \<open>response\<close> is used by no callback.
\<close>

record 'v reply =
  err :: "string option"
  body :: "'v body"

text \<open>
  The values the three requesters reject with: \<open>err\<close> itself, the \<open>message\<close> of the
  body's \<open>error\<close> (getCalendars, findFreeRoom), or the \<open>error\<close> object (postRoom).
\<close>

datatype cause = RequestErr string | ErrMessage string | ErrObject api_error

subsection \<open>Q deferreds\<close>

text \<open>
  A deferred of Q settles once: \<open>resolve\<close> and \<open>reject\<close> on a settled one do nothing.
\<close>

datatype ('a, 'e) promise = Pending | Fulfilled 'a | Rejected 'e

fun resolve :: "'a \<Rightarrow> ('a, 'e) promise \<Rightarrow> ('a, 'e) promise" where
  "resolve v Pending = Fulfilled v"
| "resolve v d = d"

fun reject :: "'e \<Rightarrow> ('a, 'e) promise \<Rightarrow> ('a, 'e) promise" where
  "reject c Pending = Rejected c"
| "reject c d = d"

subsection \<open>findFreeRoom\<close>

text \<open>
  \<open>namesToFind.indexOf(calendar.name)\<close>: the first index, or \<open>-1\<close>.
\<close>

fun indexOf :: "'a list \<Rightarrow> 'a \<Rightarrow> int" where
  "indexOf [] x = - 1"
| "indexOf (y # ys) x =
     (if y = x then 0 else (let i = indexOf ys x in if i = - 1 then - 1 else i + 1))"

text \<open>
  The test \<open>if(~namesToFind.indexOf(calendar.name))\<close>: bitwise complement, then
  truthiness of a number. \<open>issued\<close> lists, in the order of \<open>parsedCals.forEach\<close>, the
  calendars for which \<open>request.get\<close> is called.
\<close>

definition truthy_number :: "int \<Rightarrow> bool" where
  "truthy_number n = (n \<noteq> 0)"

definition issued :: "string list \<Rightarrow> calendar list \<Rightarrow> calendar list" where
  "issued namesToFind parsedCals =
     filter (\<lambda>calendar. truthy_number (NOT (indexOf namesToFind (name calendar)))) parsedCals"

text \<open>
  \<open>parsedBody.value == ''\<close>: loose equality with the empty string. \<open>undefined\<close> is not
  loosely equal to it; an array is compared through its string form, which for an array
  of event objects is empty exactly when the array is.
\<close>

fun loosely_empty :: "event list option \<Rightarrow> bool" where
  "loosely_empty None = False"
| "loosely_empty (Some evs) = (evs = [])"

text \<open>
  The callback of one calendarView query, run on the deferred of \<open>findFreeRoom\<close>. A
  throw leaves the callback (\<open>Inl\<close>); nothing in requesters.js catches it.
\<close>

definition calendarView_callback ::
  "calendar \<Rightarrow> event list reply \<Rightarrow> (creds option, cause) promise
     \<Rightarrow> exn + (creds option, cause) promise" where
  "calendarView_callback calendar r deferred =
     (case JSON_parse (body r) of
        Inl e \<Rightarrow> Inl e
      | Inr parsedBody \<Rightarrow>
          (case err r of
             Some e \<Rightarrow> Inr (reject (RequestErr e) deferred)
           | None \<Rightarrow>
               (case body_error parsedBody of
                  Some er \<Rightarrow> Inr (reject (ErrMessage (message er)) deferred)
                | None \<Rightarrow>
                    if loosely_empty (body_value parsedBody)
                    then Inr (resolve
                      (Some \<lparr>creds_ownerName = owner_name (owner calendar),
                             creds_ownerAddress = address (owner calendar),
                             creds_name = name calendar\<rparr>) deferred)
                    else Inr deferred)))"

text \<open>
  The callbacks run one at a time, in the order in which the queries complete. The
  result is the deferred after the last callback and the exception that escaped, if one
  did: an exception that leaves a callback ends the process, so no later callback runs.
  A value \<open>Fulfilled None\<close> stands for a promise resolved to \<open>false\<close>.
\<close>

fun deliver ::
  "(calendar \<times> event list reply) list \<Rightarrow> (creds option, cause) promise
     \<Rightarrow> (creds option, cause) promise \<times> exn option" where
  "deliver [] deferred = (deferred, None)"
| "deliver ((calendar, r) # rest) deferred =
     (case calendarView_callback calendar r deferred of
        Inl e \<Rightarrow> (deferred, Some e)
      | Inr deferred' \<Rightarrow> deliver rest deferred')"

text \<open>
  \<open>findFreeRoom\<close>. The remote side and the scheduler are the parameter \<open>network\<close>: given
  the queries issued (token, window and calendar id make the URL of each), it returns the
  completed ones with their replies, in completion order. The deferred is created
  pending; \<open>forEach\<close> only issues queries, every callback runs later.
\<close>

definition findFreeRoom ::
  "string list \<Rightarrow> calendar list \<Rightarrow> (calendar list \<Rightarrow> (calendar \<times> event list reply) list)
     \<Rightarrow> (creds option, cause) promise \<times> exn option" where
  "findFreeRoom namesToFind parsedCals network =
     deliver (network (issued namesToFind parsedCals)) Pending"

text \<open>
  The three results of a query in the words of the specification. An error is a
  network, service or parse failure: a reply that comes with \<open>err\<close> set (a transport
  failure, which comes without a body), a body that does not parse, or a body with an
  \<open>error\<close> member. \<open>Reported c\<close> carries the value the callback rejects with when it
  gets as far as reading the failure; a body that does not parse and comes without
  \<open>err\<close> has no such value. Free is an empty event list, busy a non-empty one. A body
  with neither \<open>error\<close> nor \<open>value\<close> is none of the three.
\<close>

datatype failure = Reported cause | ParseFailure

datatype query_result = Free | Busy | Error failure

definition result_of :: "event list reply \<Rightarrow> query_result option" where
  "result_of r =
     (case err r of
        Some e \<Rightarrow> Some (Error (Reported (RequestErr e)))
      | None \<Rightarrow>
          (case body r of
             Unparseable \<Rightarrow> Some (Error ParseFailure)
           | Json parsedBody \<Rightarrow>
               (case body_error parsedBody of
                  Some er \<Rightarrow> Some (Error (Reported (ErrMessage (message er))))
                | None \<Rightarrow>
                    (case body_value parsedBody of
                       None \<Rightarrow> None
                     | Some evs \<Rightarrow> Some (if evs = [] then Free else Busy)))))"

definition credsOf :: "calendar \<Rightarrow> creds" where
  "credsOf calendar =
     \<lparr>creds_ownerName = owner_name (owner calendar),
      creds_ownerAddress = address (owner calendar),
      creds_name = name calendar\<rparr>"


section \<open>The skill (lambda/index.js)\<close>

subsection \<open>Values, session attributes, responses\<close>

text \<open>
  The JavaScript values that reach the session attributes and the responses:
  \<open>undefined\<close>, strings, numbers, the string \<open>toISOString()\<close> gives for an instant
  (kept as its count of milliseconds), and the text \<open>this.t(key, args...)\<close> renders,
  kept as the key and the arguments since resources.js is not part of the sources.
\<close>

datatype jsval = Undefined | Str string | Num real | ISO int | T string "jsval list"

text \<open>
  \<open>states\<close>: \<open>Blank\<close> is the empty string, the state of sessionHandlers.
\<close>

datatype state = Blank | TIMEMODE | CONFIRMMODE

text \<open>
  \<open>this.attributes\<close>. An attribute that is \<open>undefined\<close> is unset. \<open>STATE\<close> is the
  attribute the SDK keeps the state in (absent reads as \<open>Blank\<close>).
\<close>

record attributes =
  STATE :: state
  ownerAddress :: jsval
  ownerName :: jsval
  roomName :: jsval
  startTime :: jsval
  endTime :: jsval
  duration :: jsval
  speechOutput :: jsval
  repromptSpeech :: jsval

text \<open>
  The handler context: \<open>this.attributes\<close> and \<open>this.handler.state\<close>.
\<close>

record ctx =
  attributes :: attributes
  state :: state

datatype card = Text jsval | Cause cause

datatype response = Ask jsval jsval | Tell jsval | TellWithCard jsval jsval card

text \<open>
  What one invocation comes to: a response with the session attributes it carries, no
  response at all (a promise that never settles), or an exception nothing caught.
\<close>

datatype outcome =
    Responded response attributes
  | NoResponse attributes
  | Uncaught exn attributes

text \<open>
  A moment.js duration, through the three readings the skill takes of it. Durations are
  whole numbers of milliseconds; the rounding of floating point is not modelled.
\<close>

record moment_duration =
  asMilliseconds :: int

definition asHours :: "moment_duration \<Rightarrow> real" where
  "asHours d = real_of_int (asMilliseconds d) / 3600000"

definition asMinutes :: "moment_duration \<Rightarrow> real" where
  "asMinutes d = real_of_int (asMilliseconds d) / 60000"

text \<open>
  Everything an invocation reads from outside index.js and requesters.js:
  \<open>moment.duration\<close> (moment.js is not part of the sources; \<open>None\<close> stands for a falsy
  result), the clock of \<open>new Date()\<close>, \<open>config.testNames\<close>, and the replies of the
  remote side to the three requesters.
\<close>

record env =
  duration_of :: "string option \<Rightarrow> moment_duration option"
  now :: int
  testNames :: "string list"
  calendars_reply :: "calendar list reply"
  network :: "calendar list \<Rightarrow> (calendar \<times> event list reply) list"
  post_reply :: "unit reply"

text \<open>
  The request: the event string the SDK derives (request type or intent name) and the
  value of the slot \<open>Duration\<close>.
\<close>

datatype eventName =
    LaunchRequest | SessionEndedRequest | Unhandled
  | AMAZON_HelpIntent | AMAZON_RepeatIntent | AMAZON_StopIntent | AMAZON_CancelIntent
  | AMAZON_NoIntent | AMAZON_YesIntent | AMAZON_StartOverIntent
  | BookIntent | DurationIntent | OtherIntent string

record request =
  eventString :: eventName
  Duration :: "string option"

subsection \<open>The SDK's response listeners (docs/alexa-sdk.md)\<close>

text \<open>
  \<open>:responseReady\<close> copies \<open>this.handler.state\<close> into the attribute \<open>STATE\<close> when the
  state is truthy, that is, not the empty string. \<open>:ask\<close>, \<open>:tell\<close> and
  \<open>:tellWithCard\<close> build the response from their arguments and \<open>this.attributes\<close>.
\<close>

definition responseReady :: "ctx \<Rightarrow> attributes" where
  "responseReady c =
     (if state c \<noteq> Blank then (attributes c)\<lparr>STATE := state c\<rparr> else attributes c)"

definition emit_ask :: "jsval \<Rightarrow> jsval \<Rightarrow> ctx \<Rightarrow> outcome" where
  "emit_ask speech reprompt c = Responded (Ask speech reprompt) (responseReady c)"

definition emit_tell :: "jsval \<Rightarrow> ctx \<Rightarrow> outcome" where
  "emit_tell speech c = Responded (Tell speech) (responseReady c)"

definition emit_tellWithCard :: "jsval \<Rightarrow> jsval \<Rightarrow> card \<Rightarrow> ctx \<Rightarrow> outcome" where
  "emit_tellWithCard speech title content c =
     Responded (TellWithCard speech title content) (responseReady c)"

subsection \<open>Helper functions of index.js\<close>

definition emitAsk :: "jsval \<Rightarrow> jsval \<Rightarrow> ctx \<Rightarrow> outcome" where
  "emitAsk speech reprompt c =
     (let c' = c\<lparr>attributes := (attributes c)\<lparr>speechOutput := speech, repromptSpeech := reprompt\<rparr>\<rparr>
      in emit_ask (speechOutput (attributes c')) (repromptSpeech (attributes c')) c')"

definition resetAttributes :: "ctx \<Rightarrow> ctx" where
  "resetAttributes c =
     c\<lparr>attributes := (attributes c)
         \<lparr>ownerAddress := Undefined, ownerName := Undefined, roomName := Undefined,
          startTime := Undefined, endTime := Undefined, duration := Undefined,
          speechOutput := Undefined, repromptSpeech := Undefined\<rparr>\<rparr>"

definition emitRepeat :: "ctx \<Rightarrow> outcome" where
  "emitRepeat c = emitAsk (speechOutput (attributes c)) (repromptSpeech (attributes c)) c"

definition setDuration :: "env \<Rightarrow> moment_duration \<Rightarrow> ctx \<Rightarrow> ctx" where
  "setDuration e bookingDuration c =
     (let startT = now e;
          endT = startT + asMilliseconds bookingDuration
      in c\<lparr>attributes := (attributes c)
           \<lparr>startTime := ISO startT, endTime := ISO endT,
            duration := Num (asMinutes bookingDuration)\<rparr>\<rparr>)"


subsection \<open>getCalendars, postRoom and getRoom\<close>

text \<open>
  The callback of \<open>requesters.getCalendars\<close> on its fresh deferred. It resolves to
  \<open>parsedBody.value\<close>, which is \<open>undefined\<close> (\<open>None\<close>) when the body has no such member.
\<close>

definition getCalendars ::
  "calendar list reply \<Rightarrow> exn + (calendar list option, cause) promise" where
  "getCalendars r =
     (case JSON_parse (body r) of
        Inl e \<Rightarrow> Inl e
      | Inr parsedBody \<Rightarrow>
          (case err r of
             Some e \<Rightarrow> Inr (reject (RequestErr e) Pending)
           | None \<Rightarrow>
               (case body_error parsedBody of
                  Some er \<Rightarrow> Inr (reject (ErrMessage (message er)) Pending)
                | None \<Rightarrow> Inr (resolve (body_value parsedBody) Pending))))"

text \<open>
  The callback of \<open>requesters.postRoom\<close>; it resolves to the \<open>ownerName\<close> it was given.
\<close>

definition postRoom :: "jsval \<Rightarrow> unit reply \<Rightarrow> exn + (jsval, cause) promise" where
  "postRoom ownerName_arg r =
     (case JSON_parse (body r) of
        Inl e \<Rightarrow> Inl e
      | Inr parsedBody \<Rightarrow>
          (case err r of
             Some e \<Rightarrow> Inr (reject (RequestErr e) Pending)
           | None \<Rightarrow>
               (case body_error parsedBody of
                  Some er \<Rightarrow> Inr (reject (ErrObject er) Pending)
                | None \<Rightarrow> Inr (resolve ownerName_arg Pending))))"

text \<open>
  The success callback of \<open>findFreeRoom(...).then\<close> inside \<open>getRoom\<close>: a member read off
  \<open>false\<close> is \<open>undefined\<close>.
\<close>

definition storeCreds :: "creds option \<Rightarrow> ctx \<Rightarrow> ctx" where
  "storeCreds cr c =
     c\<lparr>attributes := (attributes c)
         \<lparr>ownerAddress := (case cr of Some x \<Rightarrow> Str (creds_ownerAddress x) | None \<Rightarrow> Undefined),
          ownerName := (case cr of Some x \<Rightarrow> Str (creds_ownerName x) | None \<Rightarrow> Undefined),
          roomName := (case cr of Some x \<Rightarrow> Str (creds_name x) | None \<Rightarrow> Undefined)\<rparr>\<rparr>"

text \<open>
  \<open>getRoom\<close>: the deferred it returns, the exception that escaped a callback (if one
  did), and the context with the attributes written. When getCalendars resolves to
  \<open>undefined\<close>, \<open>parsedCals.forEach\<close> throws inside a callback of \<open>then\<close>; Q turns that
  into the rejection of a promise nobody reads, and the deferred of getRoom stays pending.
\<close>

definition getRoom :: "env \<Rightarrow> ctx \<Rightarrow> ((creds option, cause) promise \<times> exn option) \<times> ctx" where
  "getRoom e c =
     (case getCalendars (calendars_reply e) of
        Inl x \<Rightarrow> ((Pending, Some x), c)
      | Inr Pending \<Rightarrow> ((Pending, None), c)
      | Inr (Rejected calError) \<Rightarrow> ((Rejected calError, None), c)
      | Inr (Fulfilled None) \<Rightarrow> ((Pending, None), c)
      | Inr (Fulfilled (Some parsedCals)) \<Rightarrow>
          (case findFreeRoom (testNames e) parsedCals (network e) of
             (Fulfilled cr, x) \<Rightarrow> ((Fulfilled cr, x), storeCreds cr c)
           | (Rejected roomError, x) \<Rightarrow> ((Rejected roomError, x), c)
           | (Pending, x) \<Rightarrow> ((Pending, x), c)))"

subsection \<open>sessionHandlers\<close>

definition session_LaunchRequest :: "ctx \<Rightarrow> outcome" where
  "session_LaunchRequest c =
     emitAsk (T ''WELCOME_MESSAGE'' [T ''BUSINESS_NAME'' []])
             (T ''WELCOME_REPROMPT'' [T ''SKILL_NAME'' []]) c"

definition session_HelpIntent :: "ctx \<Rightarrow> outcome" where
  "session_HelpIntent c = emitAsk (T ''HELP_MESSAGE'' []) (T ''HELP_REPROMPT'' []) c"

definition session_SessionEndedRequest :: "ctx \<Rightarrow> outcome" where
  "session_SessionEndedRequest c = emit_tell (T ''STOP_MESSAGE'' []) c"

definition session_BookIntent :: "ctx \<Rightarrow> outcome" where
  "session_BookIntent c =
     emitAsk (T ''TIME_DURATION_MESSAGE'' []) (T ''TIME_DURATION_REPROMPT'' [])
       (c\<lparr>state := TIMEMODE\<rparr>)"

definition session_Unhandled :: "ctx \<Rightarrow> outcome" where
  "session_Unhandled c = emitAsk (T ''UNHANDLED_MESSAGE'' []) (T ''UNHANDLED_REPROMPT'' []) c"

text \<open>
  The table of sessionHandlers; \<open>this.emit(name)\<close> with a bare name reaches these.
\<close>

fun sessionHandlers :: "eventName \<Rightarrow> (env \<Rightarrow> request \<Rightarrow> ctx \<Rightarrow> outcome) option" where
  "sessionHandlers LaunchRequest = Some (\<lambda>e rq. session_LaunchRequest)"
| "sessionHandlers AMAZON_HelpIntent = Some (\<lambda>e rq. session_HelpIntent)"
| "sessionHandlers AMAZON_RepeatIntent = Some (\<lambda>e rq. emitRepeat)"
| "sessionHandlers AMAZON_StopIntent = Some (\<lambda>e rq. session_SessionEndedRequest)"
| "sessionHandlers AMAZON_CancelIntent = Some (\<lambda>e rq. session_SessionEndedRequest)"
| "sessionHandlers AMAZON_NoIntent = Some (\<lambda>e rq. session_SessionEndedRequest)"
| "sessionHandlers AMAZON_YesIntent = Some (\<lambda>e rq. session_BookIntent)"
| "sessionHandlers BookIntent = Some (\<lambda>e rq. session_BookIntent)"
| "sessionHandlers Unhandled = Some (\<lambda>e rq. session_Unhandled)"
| "sessionHandlers SessionEndedRequest = Some (\<lambda>e rq. session_SessionEndedRequest)"
| "sessionHandlers _ = None"

subsection \<open>timeModeHandlers and confirmModeHandlers\<close>

definition timeMode_HelpIntent :: "ctx \<Rightarrow> outcome" where
  "timeMode_HelpIntent c =
     emitAsk (T ''TIME_HELP_MESSAGE'' [roomName (attributes c)])
             (T ''TIME_HELP_REPROMPT'' [roomName (attributes c)]) c"

definition timeMode_Unhandled :: "ctx \<Rightarrow> outcome" where
  "timeMode_Unhandled c =
     emitAsk (T ''TIME_UNHANDLED_MESSAGE'' []) (T ''TIME_UNHANDLED_REPROMPT'' []) c"

definition confirmMode_HelpIntent :: "ctx \<Rightarrow> outcome" where
  "confirmMode_HelpIntent c =
     emitAsk (T ''BOOKING_HELP_MESSAGE'' [roomName (attributes c)])
             (T ''BOOKING_HELP_REPROMPT'' [roomName (attributes c)]) c"

definition confirmMode_Unhandled :: "ctx \<Rightarrow> outcome" where
  "confirmMode_Unhandled c =
     emitAsk (T ''BOOKING_UNHANDLED_MESSAGE'' []) (T ''BOOKING_UNHANDLED_REPROMPT'' []) c"

text \<open>
  \<open>this.emitWithState('LaunchRequest')\<close>: the state is appended to the name, and
  \<open>Unhandled\<close> of the state is taken when no listener has that name (only
  sessionHandlers has a LaunchRequest).
\<close>

definition emitWithState_LaunchRequest :: "ctx \<Rightarrow> outcome" where
  "emitWithState_LaunchRequest c =
     (case state c of
        Blank \<Rightarrow> session_LaunchRequest c
      | TIMEMODE \<Rightarrow> timeMode_Unhandled c
      | CONFIRMMODE \<Rightarrow> confirmMode_Unhandled c)"

text \<open>
  \<open>emitStartOver\<close>. The two assignments set \<open>this.handler.state\<close> and the attribute
  \<open>STATE\<close> to the empty string (the documented way round \<open>:responseReady\<close>, which
  would keep the old state otherwise).
\<close>

definition emitStartOver :: "ctx \<Rightarrow> outcome" where
  "emitStartOver c =
     (let c1 = c\<lparr>state := Blank\<rparr>;
          c2 = c1\<lparr>attributes := (attributes c1)\<lparr>STATE := Blank\<rparr>\<rparr>;
          c3 = resetAttributes c2
      in emitWithState_LaunchRequest c3)"

text \<open>
  The two callbacks of \<open>getRoom.call(this).then\<close> in DurationIntent, and the case of a
  deferred that never settles.
\<close>

definition roomFound ::
  "((creds option, cause) promise \<times> exn option) \<times> ctx \<Rightarrow> outcome" where
  "roomFound res =
     (case res of
        ((Fulfilled (Some cr), x), c) \<Rightarrow>
          (let c' = c\<lparr>state := CONFIRMMODE\<rparr>
           in emitAsk (T ''ROOM_AVAILABLE_MESSAGE'' [roomName (attributes c')])
                      (T ''ROOM_AVAILABLE_REPROMPT'' [roomName (attributes c')]) c')
      | ((Fulfilled None, x), c) \<Rightarrow>
          emitAsk (T ''TIME_UNAVAILABLE_MESSAGE'' [duration (attributes c)])
                  (T ''TIME_UNAVAILABLE_REPROMPT'' [duration (attributes c)]) c
      | ((Rejected error, x), c) \<Rightarrow>
          emit_tellWithCard (T ''ROOM_ERROR'' []) (T ''ROOM_ERROR_CARD_TITLE'' []) (Cause error) c
      | ((Pending, Some x), c) \<Rightarrow> Uncaught x (attributes c)
      | ((Pending, None), c) \<Rightarrow> NoResponse (attributes c))"

definition timeMode_DurationIntent :: "env \<Rightarrow> request \<Rightarrow> ctx \<Rightarrow> outcome" where
  "timeMode_DurationIntent e rq c =
     (case duration_of e (Duration rq) of
        Some bookingDuration \<Rightarrow>
          if asHours bookingDuration > 2 then
            emitAsk (T ''TIME_TOO_LONG_MESSAGE'' []) (T ''TIME_TOO_LONG_REPROMPT'' []) c
          else if asHours bookingDuration \<le> 0 then
            emitAsk (T ''TIME_UNHANDLED_MESSAGE'' []) (T ''TIME_UNHANDLED_REPROMPT'' []) c
          else roomFound (getRoom e (setDuration e bookingDuration c))
      | None \<Rightarrow>
          emitAsk (T ''TIME_UNHANDLED_MESSAGE'' []) (T ''TIME_UNHANDLED_MESSAGE'' []) c)"

fun timeModeHandlers :: "eventName \<Rightarrow> (env \<Rightarrow> request \<Rightarrow> ctx \<Rightarrow> outcome) option" where
  "timeModeHandlers AMAZON_HelpIntent = Some (\<lambda>e rq. timeMode_HelpIntent)"
| "timeModeHandlers AMAZON_RepeatIntent = Some (\<lambda>e rq. emitRepeat)"
| "timeModeHandlers AMAZON_StopIntent = Some (\<lambda>e rq. session_SessionEndedRequest)"
| "timeModeHandlers AMAZON_CancelIntent = Some (\<lambda>e rq. session_SessionEndedRequest)"
| "timeModeHandlers AMAZON_NoIntent = Some (\<lambda>e rq. session_SessionEndedRequest)"
| "timeModeHandlers DurationIntent = Some timeMode_DurationIntent"
| "timeModeHandlers AMAZON_StartOverIntent = Some (\<lambda>e rq. emitStartOver)"
| "timeModeHandlers Unhandled = Some (\<lambda>e rq. timeMode_Unhandled)"
| "timeModeHandlers _ = None"

text \<open>
  BookIntent of confirmModeHandlers, with the two callbacks of \<open>postRoom(...).then\<close>.
\<close>

definition confirmMode_BookIntent :: "env \<Rightarrow> ctx \<Rightarrow> outcome" where
  "confirmMode_BookIntent e c =
     (case postRoom (ownerName (attributes c)) (post_reply e) of
        Inl x \<Rightarrow> Uncaught x (attributes c)
      | Inr Pending \<Rightarrow> NoResponse (attributes c)
      | Inr (Fulfilled v) \<Rightarrow>
          emit_tellWithCard
            (T ''ROOM_BOOKED'' [ownerName (attributes c), duration (attributes c)])
            (T ''CARD_ROOM_BOOKED_TITLE'' [ownerName (attributes c)])
            (Text (T ''CARD_ROOM_BOOKED_CONTENT'' [ownerName (attributes c), duration (attributes c)]))
            c
      | Inr (Rejected bookError) \<Rightarrow>
          emit_tellWithCard (T ''BOOKING_ERROR'' []) (T ''BOOKING_ERROR_CARD_TITLE'' [])
            (Cause bookError) c)"

text \<open>
  \<open>this.emitWithState('BookIntent')\<close>: the state is appended to the name, and
  \<open>Unhandled\<close> of the state is taken when no listener has that name.
\<close>

definition emitWithState_BookIntent :: "env \<Rightarrow> ctx \<Rightarrow> outcome" where
  "emitWithState_BookIntent e c =
     (case state c of
        Blank \<Rightarrow> session_BookIntent c
      | TIMEMODE \<Rightarrow> timeMode_Unhandled c
      | CONFIRMMODE \<Rightarrow> confirmMode_BookIntent e c)"

fun confirmModeHandlers :: "eventName \<Rightarrow> (env \<Rightarrow> request \<Rightarrow> ctx \<Rightarrow> outcome) option" where
  "confirmModeHandlers AMAZON_HelpIntent = Some (\<lambda>e rq. confirmMode_HelpIntent)"
| "confirmModeHandlers AMAZON_RepeatIntent = Some (\<lambda>e rq. emitRepeat)"
| "confirmModeHandlers AMAZON_StopIntent = Some (\<lambda>e rq. session_SessionEndedRequest)"
| "confirmModeHandlers AMAZON_CancelIntent = Some (\<lambda>e rq. session_SessionEndedRequest)"
| "confirmModeHandlers AMAZON_NoIntent = Some (\<lambda>e rq. session_SessionEndedRequest)"
| "confirmModeHandlers AMAZON_YesIntent = Some (\<lambda>e rq. emitWithState_BookIntent e)"
| "confirmModeHandlers BookIntent = Some (\<lambda>e rq. confirmMode_BookIntent e)"
| "confirmModeHandlers AMAZON_StartOverIntent = Some (\<lambda>e rq. emitStartOver)"
| "confirmModeHandlers Unhandled = Some (\<lambda>e rq. confirmMode_Unhandled)"
| "confirmModeHandlers _ = None"

subsection \<open>exports.handler\<close>

text \<open>
  All listeners are registered in one emitter under the name with the state appended;
  \<open>listeners st nm\<close> is the listener of \<open>nm\<close> followed by the string of \<open>st\<close>.
\<close>

fun listeners :: "state \<Rightarrow> eventName \<Rightarrow> (env \<Rightarrow> request \<Rightarrow> ctx \<Rightarrow> outcome) option" where
  "listeners Blank nm = sessionHandlers nm"
| "listeners TIMEMODE nm = timeModeHandlers nm"
| "listeners CONFIRMMODE nm = confirmModeHandlers nm"

text \<open>
  \<open>alexa.execute()\<close>: the state is read from the attribute \<open>STATE\<close> of the incoming
  session, the event string gets the state appended, and \<open>Unhandled\<close> of that state
  is emitted when there is no listener of that name.
\<close>

definition handler :: "env \<Rightarrow> request \<Rightarrow> attributes \<Rightarrow> outcome" where
  "handler e rq attrs =
     (let c = \<lparr>attributes = attrs, state = STATE attrs\<rparr>
      in case listeners (state c) (eventString rq) of
           Some h \<Rightarrow> h e rq c
         | None \<Rightarrow>
             (case listeners (state c) Unhandled of
                Some h \<Rightarrow> h e rq c
              | None \<Rightarrow> Uncaught TypeError attrs))"

text \<open>
  The session at first contact, and the attributes a session can hold after any number
  of invocations (whatever the requests, the clock and the remote side).
\<close>

definition newSession :: attributes where
  "newSession =
     \<lparr>STATE = Blank, ownerAddress = Undefined, ownerName = Undefined, roomName = Undefined,
      startTime = Undefined, endTime = Undefined, duration = Undefined,
      speechOutput = Undefined, repromptSpeech = Undefined\<rparr>"

fun attributesOf :: "outcome \<Rightarrow> attributes" where
  "attributesOf (Responded r a) = a"
| "attributesOf (NoResponse a) = a"
| "attributesOf (Uncaught x a) = a"

inductive reachable :: "attributes \<Rightarrow> bool" where
  start: "reachable newSession"
| step: "reachable a \<Longrightarrow> reachable (attributesOf (handler e rq a))"


section \<open>Notions of the specification and example data\<close>

text \<open>
  The first error observed in completion order.
\<close>

fun firstError :: "(calendar \<times> event list reply) list \<Rightarrow> failure option" where
  "firstError [] = None"
| "firstError ((calendar, r) # rest) =
     (case result_of r of Some (Error x) \<Rightarrow> Some x | _ \<Rightarrow> firstError rest)"


text \<open>
  Two rooms and the replies a calendarView query can get: one event in the window, no
  event, and an error body of the remote side.
\<close>

definition roomA :: calendar where
  "roomA = \<lparr>cal_id = ''AAMkAGI1'', name = ''Room A'',
            owner = \<lparr>owner_name = ''Room A'', address = ''rooma@example.com''\<rparr>\<rparr>"

definition roomB :: calendar where
  "roomB = \<lparr>cal_id = ''AAMkAGI2'', name = ''Room B'',
            owner = \<lparr>owner_name = ''Room B'', address = ''roomb@example.com''\<rparr>\<rparr>"

definition busyReply :: "event list reply" where
  "busyReply = \<lparr>err = None, body = Json (ParsedBody None (Some [\<lparr>subject = ''Standup''\<rparr>]))\<rparr>"

definition freeReply :: "event list reply" where
  "freeReply = \<lparr>err = None, body = Json (ParsedBody None (Some []))\<rparr>"

definition errorReply :: "event list reply" where
  "errorReply = \<lparr>err = None, body = Json (ParsedBody
     (Some \<lparr>code = ''InvalidAuthenticationToken'', message = ''Access token has expired.''\<rparr>) None)\<rparr>"


text \<open>
  The two groups of booking attributes: the owner group is written by \<open>getRoom\<close>, the
  window group by \<open>setDuration\<close>. \<open>allSetOrUnset\<close> is the invariant as the
  specification words it, over all six attributes at once.
\<close>

definition ownerSet :: "attributes \<Rightarrow> bool" where
  "ownerSet a = (ownerAddress a \<noteq> Undefined \<and> ownerName a \<noteq> Undefined \<and> roomName a \<noteq> Undefined)"

definition ownerUnset :: "attributes \<Rightarrow> bool" where
  "ownerUnset a = (ownerAddress a = Undefined \<and> ownerName a = Undefined \<and> roomName a = Undefined)"

definition windowSet :: "attributes \<Rightarrow> bool" where
  "windowSet a = (startTime a \<noteq> Undefined \<and> endTime a \<noteq> Undefined \<and> duration a \<noteq> Undefined)"

definition windowUnset :: "attributes \<Rightarrow> bool" where
  "windowUnset a = (startTime a = Undefined \<and> endTime a = Undefined \<and> duration a = Undefined)"

definition groupsConsistent :: "attributes \<Rightarrow> bool" where
  "groupsConsistent a =
     ((ownerSet a \<or> ownerUnset a) \<and> (windowSet a \<or> windowUnset a) \<and> (ownerSet a \<longrightarrow> windowSet a))"

definition allSetOrUnset :: "attributes \<Rightarrow> bool" where
  "allSetOrUnset a = ((ownerSet a \<and> windowSet a) \<or> (ownerUnset a \<and> windowUnset a))"

text \<open>
  A response that asks carries, in the attributes sent with it, the speech and the
  reprompt it asks with.
\<close>

definition promptStored :: "outcome \<Rightarrow> bool" where
  "promptStored out =
     (case out of
        Responded (Ask s r) a \<Rightarrow> speechOutput a = s \<and> repromptSpeech a = r
      | _ \<Rightarrow> True)"

text \<open>
  The exception an invocation ended with, if it did.
\<close>

fun thrown :: "outcome \<Rightarrow> exn option" where
  "thrown (Uncaught x a) = Some x"
| "thrown (Responded r a) = None"
| "thrown (NoResponse a) = None"

text \<open>
  Example replies of the directory query and the booking write; a transport failure
  (\<open>err\<close> set, no body); an environment in which both rooms are free; requests; and the
  sessions after "book", after a following half-hour request that finds room A, and
  after the same request when the directory query is refused.
\<close>

definition directoryReply :: "calendar list reply" where
  "directoryReply = \<lparr>err = None, body = Json (ParsedBody None (Some [roomA, roomB]))\<rparr>"

definition directoryError :: "calendar list reply" where
  "directoryError = \<lparr>err = None, body = Json (ParsedBody
     (Some \<lparr>code = ''InvalidAuthenticationToken'', message = ''Access token has expired.''\<rparr>) None)\<rparr>"

definition transportFailure :: "'v reply" where
  "transportFailure = \<lparr>err = Some ''ECONNRESET'', body = Unparseable\<rparr>"

definition postOk :: "unit reply" where
  "postOk = \<lparr>err = None, body = Json (ParsedBody None None)\<rparr>"

definition exampleDuration :: "string option \<Rightarrow> moment_duration option" where
  "exampleDuration s =
     (if s = Some ''PT30M'' then Some \<lparr>asMilliseconds = 1800000\<rparr>
      else if s = Some ''PT3H'' then Some \<lparr>asMilliseconds = 10800000\<rparr>
      else Some \<lparr>asMilliseconds = 0\<rparr>)"

definition exampleEnv :: env where
  "exampleEnv =
     \<lparr>duration_of = exampleDuration, now = 1490000000000, testNames = [''Room A'', ''Room B''],
      calendars_reply = directoryReply, network = map (\<lambda>c. (c, freeReply)), post_reply = postOk\<rparr>"

definition intent :: "eventName \<Rightarrow> request" where
  "intent nm = \<lparr>eventString = nm, Duration = None\<rparr>"

definition durationRequest :: "string \<Rightarrow> request" where
  "durationRequest s = \<lparr>eventString = DurationIntent, Duration = Some s\<rparr>"

definition timeModeSession :: attributes where
  "timeModeSession = attributesOf (handler exampleEnv (intent BookIntent) newSession)"

definition roomFoundSession :: attributes where
  "roomFoundSession = attributesOf (handler exampleEnv (durationRequest ''PT30M'') timeModeSession)"

definition failedLookupSession :: attributes where
  "failedLookupSession =
     attributesOf (handler (exampleEnv\<lparr>calendars_reply := directoryError\<rparr>)
       (durationRequest ''PT30M'') timeModeSession)"

section \<open>The availability resolver\<close>

subsection \<open>The allow-list test and single callbacks\<close>

lemma indexOf_ge: "- 1 \<le> indexOf xs x"
  by (induction xs) (auto simp: Let_def)

lemma indexOf_absent: "(indexOf xs x = - 1) = (x \<notin> set xs)"
proof (induction xs)
  case Nil show ?case by simp
next
  case (Cons y ys)
  have "- 1 \<le> indexOf ys x" by (rule indexOf_ge)
  with Cons show ?case by (auto simp: Let_def)
qed

lemma allowed_iff: "truthy_number (NOT (indexOf xs x)) = (x \<in> set xs)"
proof -
  have "(NOT (indexOf xs x) = 0) = (indexOf xs x = - 1)"
    by (simp add: not_int_def) 
  then show ?thesis by (simp add: truthy_number_def indexOf_absent)
qed

lemma issued_filter: "issued ns cals = filter (\<lambda>c. name c \<in> set ns) cals"
  by (simp add: issued_def allowed_iff)

lemma callback_busy:
  "result_of r = Some Busy \<Longrightarrow> calendarView_callback c r d = Inr d"
  by (auto simp: result_of_def calendarView_callback_def split: body.splits option.splits parsedBody.splits if_splits)

lemma callback_free:
  "result_of r = Some Free \<Longrightarrow> calendarView_callback c r d = Inr (resolve (Some (credsOf c)) d)"
  by (auto simp: result_of_def calendarView_callback_def credsOf_def split: body.splits option.splits parsedBody.splits if_splits)

lemma callback_error:
  "result_of r = Some (Error (Reported x)) \<Longrightarrow> body r \<noteq> Unparseable
   \<Longrightarrow> calendarView_callback c r d = Inr (reject x d)"
  by (auto simp: result_of_def calendarView_callback_def split: body.splits option.splits parsedBody.splits if_splits)

lemma callback_throws:
  "body r = Unparseable \<Longrightarrow> calendarView_callback c r d = Inl SyntaxError"
  by (simp add: calendarView_callback_def)

lemma parsed_error_reported:
  "result_of r = Some (Error f) \<Longrightarrow> body r \<noteq> Unparseable \<Longrightarrow> \<exists>x. f = Reported x"
  by (auto simp: result_of_def split: body.splits option.splits parsedBody.splits if_splits)

lemma deliver_settled: "d \<noteq> Pending \<Longrightarrow> fst (deliver cs d) = d"
proof (induction cs)
  case Nil show ?case by simp
next
  case (Cons cr cs)
  obtain c r where cr: "cr = (c, r)" by (cases cr)
  have "calendarView_callback c r d = Inr d \<or> (\<exists>e. calendarView_callback c r d = Inl e)"
    using Cons.prems
    by (cases d) (auto simp: calendarView_callback_def split: sum.splits option.splits)
  with Cons cr show ?case by auto
qed

lemma deliver_busy_prefix:
  "\<forall>cr \<in> set pre. result_of (snd cr) = Some Busy \<Longrightarrow> deliver (pre @ rest) d = deliver rest d"
  by (induction pre) (auto simp: callback_busy)

lemma deliver_no_throw:
  "\<forall>cr \<in> set cs. body (snd cr) \<noteq> Unparseable \<Longrightarrow> snd (deliver cs d) = None"
proof (induction cs arbitrary: d)
  case Nil show ?case by simp
next
  case (Cons cr cs)
  obtain c r where cr: "cr = (c, r)" by (cases cr)
  from Cons.prems cr have "body r \<noteq> Unparseable" by simp
  then have "\<exists>d'. calendarView_callback c r d = Inr d'"
    by (cases "body r") (auto simp: calendarView_callback_def split: option.splits)
  then obtain d' where "calendarView_callback c r d = Inr d'" ..
  with Cons cr show ?case by simp
qed

lemma all_busy_pending:
  "\<forall>cr \<in> set cs. result_of (snd cr) = Some Busy \<Longrightarrow> deliver cs Pending = (Pending, None)"
  using deliver_busy_prefix [of cs "[]" Pending] by simp

lemma example_results:
  "result_of busyReply = Some Busy" "result_of freeReply = Some Free"
  "result_of errorReply = Some (Error (Reported (ErrMessage ''Access token has expired.'')))"
  "result_of transportFailure = Some (Error (Reported (RequestErr ''ECONNRESET'')))"
  by (simp_all add: result_of_def busyReply_def freeReply_def errorReply_def transportFailure_def)

lemma example_bodies:
  "body busyReply \<noteq> Unparseable" "body freeReply \<noteq> Unparseable"
  "body errorReply \<noteq> Unparseable" "body transportFailure = Unparseable"
  by (simp_all add: busyReply_def freeReply_def errorReply_def transportFailure_def)

lemma issued_examples:
  "issued [''Room A'', ''Room B''] [roomA, roomB] = [roomA, roomB]"
  "issued [''Room A''] [roomA, roomB] = [roomA]"
  by (simp_all add: issued_filter roomA_def roomB_def)

lemma firstError_exists:
  "\<exists>cr \<in> set cs. \<exists>x. result_of (snd cr) = Some (Error x) \<Longrightarrow> \<exists>x. firstError cs = Some x"
  by (induction cs) (force split: option.splits query_result.splits)+

text \<open>
  As long as every body parses, the first error in completion order is what the promise
  is rejected with, when no query is free.
\<close>

lemma deliver_first_error:
  "\<forall>cr \<in> set cs. body (snd cr) \<noteq> Unparseable \<and>
      (result_of (snd cr) = Some Busy \<or> (\<exists>f. result_of (snd cr) = Some (Error f)))
   \<Longrightarrow> firstError cs = Some f
   \<Longrightarrow> \<exists>x. f = Reported x \<and> deliver cs Pending = (Rejected x, None)"
proof (induction cs)
  case Nil then show ?case by simp
next
  case (Cons cr cs)
  obtain c r where cr: "cr = (c, r)" by (cases cr)
  from Cons.prems(1) cr have parsed: "body r \<noteq> Unparseable" by simp
  from Cons.prems(1) cr
  consider (busy) "result_of r = Some Busy" | (error) g where "result_of r = Some (Error g)"
    by auto
  then show ?case
  proof cases
    case busy
    with Cons cr show ?thesis by (simp add: callback_busy)
  next
    case error
    with Cons.prems(2) cr have g: "g = f" by simp
    from error parsed obtain x where x: "g = Reported x"
      using parsed_error_reported by blast
    have "\<forall>cr \<in> set cs. body (snd cr) \<noteq> Unparseable" using Cons.prems(1) by simp
    then have "snd (deliver cs (Rejected x)) = None" by (rule deliver_no_throw)
    moreover have "fst (deliver cs (Rejected x)) = Rejected x" by (simp add: deliver_settled)
    ultimately have rest: "deliver cs (Rejected x) = (Rejected x, None)"
      by (simp add: prod_eq_iff)
    from error x parsed have "calendarView_callback c r Pending = Inr (Rejected x)"
      by (simp add: callback_error)
    with rest g x cr show ?thesis by simp
  qed
qed

lemma first_error_example:
  "findFreeRoom [''Room A'', ''Room B''] [roomA, roomB]
     (\<lambda>qs. [(roomB, busyReply), (roomA, errorReply)])
   = (Rejected (ErrMessage ''Access token has expired.''), None)"
  by (simp add: findFreeRoom_def example_results example_bodies callback_busy callback_error)

lemma fulfilled_from:
  "fst (deliver cs Pending) = Fulfilled v \<Longrightarrow> \<exists>c \<in> fst ` set cs. v = Some (credsOf c)"
proof (induction cs)
  case Nil then show ?case by simp
next
  case (Cons cr cs)
  obtain c r where cr: "cr = (c, r)" by (cases cr)
  show ?case
  proof (cases "calendarView_callback c r Pending")
    case (Inl e)
    with Cons.prems cr show ?thesis by simp
  next
    case (Inr d)
    show ?thesis
    proof (cases "d = Pending")
      case True
      with Inr Cons cr show ?thesis by simp
    next
      case False
      then have "fst (deliver cs d) = d" by (rule deliver_settled)
      with Inr Cons.prems cr have d: "d = Fulfilled v" by simp
      with Inr have "v = Some (credsOf c)"
        by (auto simp: calendarView_callback_def credsOf_def
            split: sum.splits option.splits if_splits)
      with cr show ?thesis by simp
    qed
  qed
qed

subsection \<open>Claims about findFreeRoom\<close>

text \<open>
  C1. When every issued query settles as busy, the promise of \<open>findFreeRoom\<close> is
  expected to settle with "no room free". On the code it does not settle: with both
  rooms on the allow-list and both busy, the deferred is still pending after the last
  callback, and no exception was thrown either.
\<close>

theorem C1_all_busy_never_settles:
  "result_of busyReply = Some Busy \<and>
   findFreeRoom [''Room A'', ''Room B''] [roomA, roomB] (map (\<lambda>c. (c, busyReply)))
     = (Pending, None)"
  by (simp add: findFreeRoom_def issued_examples example_results callback_busy)

text \<open>
  C2. With no free result and at least one error, the outcome is expected to be the
  failure with the first error observed. On the code it is not, when the error is a
  transport failure: room B is busy, room A's query fails on the network, so its callback
  gets \<open>err\<close> and no body. The callback parses the body before it looks at \<open>err\<close> and
  throws; the deferred is still pending, and the first error observed is not what the
  promise is rejected with.
\<close>

theorem C2_transport_failure_not_failed:
  "result_of busyReply = Some Busy \<and>
   result_of transportFailure = Some (Error (Reported (RequestErr ''ECONNRESET''))) \<and>
   firstError [(roomB, busyReply), (roomA, transportFailure)]
     = Some (Reported (RequestErr ''ECONNRESET'')) \<and>
   findFreeRoom [''Room A'', ''Room B''] [roomA, roomB]
     (\<lambda>qs. [(roomB, busyReply), (roomA, transportFailure)])
   = (Pending, Some SyntaxError)"
  by (simp add: findFreeRoom_def example_results example_bodies callback_busy callback_throws)

text \<open>
  C3, as stated, fails: a free result does not make the outcome a resolution when an
  error settled before it. Room A's query fails first, room B's comes back free second,
  and the promise is rejected.
\<close>

theorem C3_error_before_free_counterexample:
  "result_of freeReply = Some Free \<and>
   findFreeRoom [''Room A'', ''Room B''] [roomA, roomB]
     (\<lambda>qs. [(roomA, errorReply), (roomB, freeReply)])
   = (Rejected (ErrMessage ''Access token has expired.''), None)"
  by (simp add: findFreeRoom_def example_results example_bodies callback_error callback_free)

text \<open>
  C3, amended. When the first free result settles after busy results only, the promise
  resolves to the credentials of that calendar, whatever settles later.
\<close>

theorem C3_first_free_wins:
  assumes "net (issued namesToFind parsedCals) = pre @ (calendar, r) # post"
    and "\<forall>cr \<in> set pre. result_of (snd cr) = Some Busy"
    and "result_of r = Some Free"
  shows "fst (findFreeRoom namesToFind parsedCals net) = Fulfilled (Some (credsOf calendar))"
proof -
  have "deliver (pre @ (calendar, r) # post) Pending = deliver ((calendar, r) # post) Pending"
    using assms(2) by (rule deliver_busy_prefix)
  also have "\<dots> = deliver post (Fulfilled (Some (credsOf calendar)))"
    using assms(3) by (simp add: callback_free)
  finally show ?thesis
    by (simp add: findFreeRoom_def assms(1) deliver_settled)
qed

theorem C3_first_free_wins_witness:
  "fst (findFreeRoom [''Room A'', ''Room B''] [roomA, roomB]
     (\<lambda>qs. [(roomA, busyReply), (roomB, freeReply), (roomA, errorReply)]))
   = Fulfilled (Some \<lparr>creds_ownerName = ''Room B'', creds_ownerAddress = ''roomb@example.com'',
                      creds_name = ''Room B''\<rparr>)"
proof -
  have order: "(\<lambda>qs. [(roomA, busyReply), (roomB, freeReply), (roomA, errorReply)])
                 (issued [''Room A'', ''Room B''] [roomA, roomB])
               = [(roomA, busyReply)] @ (roomB, freeReply) # [(roomA, errorReply)]"
    by simp
  have before: "\<forall>cr \<in> set [(roomA, busyReply)]. result_of (snd cr) = Some Busy"
    by (simp add: example_results)
  have "fst (findFreeRoom [''Room A'', ''Room B''] [roomA, roomB]
          (\<lambda>qs. [(roomA, busyReply), (roomB, freeReply), (roomA, errorReply)]))
        = Fulfilled (Some (credsOf roomB))"
    using order before example_results(2) by (rule C3_first_free_wins)
  then show ?thesis by (simp add: credsOf_def roomB_def)
qed

text \<open>
  C10. The queries issued are those of the calendars whose name is on the allow-list;
  dropping every other calendar from the input changes nothing; and when callbacks run
  for issued queries only, a resolved promise carries credentials whose name is on the
  allow-list.
\<close>

theorem C10_allow_list:
  "set (issued namesToFind parsedCals) = {c \<in> set parsedCals. name c \<in> set namesToFind} \<and>
   findFreeRoom namesToFind parsedCals net =
     findFreeRoom namesToFind (filter (\<lambda>c. name c \<in> set namesToFind) parsedCals) net \<and>
   (fst ` set (net (issued namesToFind parsedCals)) \<subseteq> set (issued namesToFind parsedCals)
      \<longrightarrow> fst (findFreeRoom namesToFind parsedCals net) = Fulfilled v
      \<longrightarrow> (\<exists>cr. v = Some cr \<and> creds_name cr \<in> set namesToFind))"
proof (intro conjI impI)
  show "set (issued namesToFind parsedCals) = {c \<in> set parsedCals. name c \<in> set namesToFind}"
    by (auto simp: issued_filter)
  show "findFreeRoom namesToFind parsedCals net =
         findFreeRoom namesToFind (filter (\<lambda>c. name c \<in> set namesToFind) parsedCals) net"
    by (simp add: findFreeRoom_def issued_filter)
next
  assume sub: "fst ` set (net (issued namesToFind parsedCals)) \<subseteq> set (issued namesToFind parsedCals)"
    and ful: "fst (findFreeRoom namesToFind parsedCals net) = Fulfilled v"
  from ful obtain c where c: "c \<in> fst ` set (net (issued namesToFind parsedCals))"
    and v: "v = Some (credsOf c)"
    unfolding findFreeRoom_def using fulfilled_from by blast
  from c sub have "name c \<in> set namesToFind" by (auto simp: issued_filter)
  with v show "\<exists>cr. v = Some cr \<and> creds_name cr \<in> set namesToFind"
    by (simp add: credsOf_def)
qed

theorem C10_allow_list_witness:
  "issued [''Room A''] [roomA, roomB] = [roomA] \<and>
   fst (findFreeRoom [''Room A''] [roomA, roomB] (map (\<lambda>c. (c, freeReply))))
     = Fulfilled (Some (credsOf roomA)) \<and>
   creds_name (credsOf roomA) \<in> set [''Room A'']"
proof -
  have sub: "fst ` set (map (\<lambda>c. (c, freeReply)) (issued [''Room A''] [roomA, roomB]))
               \<subseteq> set (issued [''Room A''] [roomA, roomB])"
    by (simp add: issued_examples)
  have ful: "fst (findFreeRoom [''Room A''] [roomA, roomB] (map (\<lambda>c. (c, freeReply))))
               = Fulfilled (Some (credsOf roomA))"
    by (simp add: findFreeRoom_def issued_examples example_results callback_free)
  from C10_allow_list [of "[''Room A'']" "[roomA, roomB]" "map (\<lambda>c. (c, freeReply))"
      "Some (credsOf roomA)"] sub ful
  have "\<exists>cr. Some (credsOf roomA) = Some cr \<and> creds_name cr \<in> set [''Room A'']"
    by blast
  then have "creds_name (credsOf roomA) \<in> set [''Room A'']" by simp
  with ful show ?thesis by (simp add: issued_examples)
qed

section \<open>The dialog controller\<close>

subsection \<open>Single steps and the example turns\<close>

lemma emitAsk_eq:
  "emitAsk s r c = Responded (Ask s r)
     (responseReady (c\<lparr>attributes := (attributes c)\<lparr>speechOutput := s, repromptSpeech := r\<rparr>\<rparr>))"
  by (simp add: emitAsk_def emit_ask_def Let_def)

lemma asHours_bounds:
  "(asHours d > 2) = (asMilliseconds d > 7200000)"
  "(asHours d \<le> 0) = (asMilliseconds d \<le> 0)"
  by (simp_all add: asHours_def field_simps)

lemma timeModeSession_eq:
  "timeModeSession = newSession\<lparr>STATE := TIMEMODE,
     speechOutput := T ''TIME_DURATION_MESSAGE'' [], repromptSpeech := T ''TIME_DURATION_REPROMPT'' []\<rparr>"
  by (simp add: timeModeSession_def handler_def intent_def newSession_def session_BookIntent_def
      emitAsk_def emit_ask_def responseReady_def Let_def)

lemma example_duration_30:
  "duration_of exampleEnv (Some ''PT30M'') = Some \<lparr>asMilliseconds = 1800000\<rparr>"
  by (simp add: exampleEnv_def exampleDuration_def)

lemma failedLookup_turn:
  "handler (exampleEnv\<lparr>calendars_reply := directoryError\<rparr>) (durationRequest ''PT30M'') timeModeSession
     = Responded
         (TellWithCard (T ''ROOM_ERROR'' []) (T ''ROOM_ERROR_CARD_TITLE'' [])
            (Cause (ErrMessage ''Access token has expired.'')))
         (newSession\<lparr>STATE := TIMEMODE,
            startTime := ISO 1490000000000, endTime := ISO 1490001800000, duration := Num 30,
            speechOutput := T ''TIME_DURATION_MESSAGE'' [],
            repromptSpeech := T ''TIME_DURATION_REPROMPT'' []\<rparr>)"
  by (simp add: timeModeSession_eq handler_def durationRequest_def
      newSession_def timeMode_DurationIntent_def asHours_bounds exampleEnv_def exampleDuration_def
      setDuration_def asMinutes_def getRoom_def getCalendars_def directoryError_def
      roomFound_def emit_tellWithCard_def responseReady_def Let_def)

lemma failedLookupSession_eq:
  "failedLookupSession = newSession\<lparr>STATE := TIMEMODE,
     startTime := ISO 1490000000000, endTime := ISO 1490001800000, duration := Num 30,
     speechOutput := T ''TIME_DURATION_MESSAGE'' [], repromptSpeech := T ''TIME_DURATION_REPROMPT'' []\<rparr>"
  by (simp add: failedLookupSession_def failedLookup_turn)

lemma findFreeRoom_example:
  "findFreeRoom [''Room A'', ''Room B''] [roomA, roomB] (map (\<lambda>c. (c, freeReply)))
     = (Fulfilled (Some (credsOf roomA)), None)"
  by (simp add: findFreeRoom_def issued_examples example_results callback_free callback_busy)

lemma roomFound_turn:
  "handler exampleEnv (durationRequest ''PT30M'') timeModeSession
     = Responded
         (Ask (T ''ROOM_AVAILABLE_MESSAGE'' [Str ''Room A''])
              (T ''ROOM_AVAILABLE_REPROMPT'' [Str ''Room A'']))
         \<lparr>STATE = CONFIRMMODE,
          ownerAddress = Str ''rooma@example.com'', ownerName = Str ''Room A'',
          roomName = Str ''Room A'',
          startTime = ISO 1490000000000, endTime = ISO 1490001800000, duration = Num 30,
          speechOutput = T ''ROOM_AVAILABLE_MESSAGE'' [Str ''Room A''],
          repromptSpeech = T ''ROOM_AVAILABLE_REPROMPT'' [Str ''Room A'']\<rparr>"
proof -
  have "getRoom exampleEnv c
          = ((Fulfilled (Some (credsOf roomA)), None), storeCreds (Some (credsOf roomA)) c)" for c
    by (simp add: getRoom_def getCalendars_def exampleEnv_def directoryReply_def findFreeRoom_example)
  then show ?thesis
    by (simp add: timeModeSession_eq handler_def durationRequest_def
      newSession_def timeMode_DurationIntent_def asHours_bounds example_duration_30
      setDuration_def asMinutes_def storeCreds_def roomFound_def emitAsk_def emit_ask_def
      responseReady_def Let_def)
     (simp add: exampleEnv_def credsOf_def roomA_def)
qed

lemma roomFoundSession_eq:
  "roomFoundSession = \<lparr>STATE = CONFIRMMODE,
     ownerAddress = Str ''rooma@example.com'', ownerName = Str ''Room A'', roomName = Str ''Room A'',
     startTime = ISO 1490000000000, endTime = ISO 1490001800000, duration = Num 30,
     speechOutput = T ''ROOM_AVAILABLE_MESSAGE'' [Str ''Room A''],
     repromptSpeech = T ''ROOM_AVAILABLE_REPROMPT'' [Str ''Room A'']\<rparr>"
  by (simp add: roomFoundSession_def roomFound_turn)

lemma reachable_examples:
  "reachable timeModeSession" "reachable roomFoundSession" "reachable failedLookupSession"
  unfolding timeModeSession_def roomFoundSession_def failedLookupSession_def
  by (intro reachable.intros)+

text \<open>
  With both rooms busy the promise of \<open>getRoom\<close> never settles, and the invocation
  ends without a response.
\<close>

lemma all_busy_no_response:
  "handler (exampleEnv\<lparr>network := map (\<lambda>c. (c, busyReply))\<rparr>) (durationRequest ''PT30M'')
     timeModeSession
   = NoResponse (timeModeSession\<lparr>startTime := ISO 1490000000000, endTime := ISO 1490001800000,
       duration := Num 30\<rparr>)"
proof -
  have "findFreeRoom [''Room A'', ''Room B''] [roomA, roomB] (map (\<lambda>c. (c, busyReply)))
          = (Pending, None)"
    by (simp add: findFreeRoom_def issued_examples example_results callback_busy)
  then have "getRoom (exampleEnv\<lparr>network := map (\<lambda>c. (c, busyReply))\<rparr>) c = ((Pending, None), c)" for c
    by (simp add: getRoom_def getCalendars_def exampleEnv_def directoryReply_def)
  then show ?thesis
    by (simp add: timeModeSession_eq handler_def durationRequest_def newSession_def
        timeMode_DurationIntent_def asHours_bounds setDuration_def asMinutes_def roomFound_def)
       (simp add: exampleEnv_def exampleDuration_def asHours_bounds asMinutes_def setDuration_def
          roomFound_def)
qed

subsection \<open>The booking attributes\<close>

lemmas group_defs = groupsConsistent_def ownerSet_def ownerUnset_def windowSet_def windowUnset_def

lemma gc_emitAsk [simp]:
  "groupsConsistent (attributesOf (emitAsk s r c)) = groupsConsistent (attributes c)"
  by (simp add: group_defs emitAsk_def emit_ask_def responseReady_def Let_def)

lemma gc_emit_tell [simp]:
  "groupsConsistent (attributesOf (emit_tell s c)) = groupsConsistent (attributes c)"
  by (simp add: group_defs emit_tell_def responseReady_def)

lemma gc_emit_tellWithCard [simp]:
  "groupsConsistent (attributesOf (emit_tellWithCard s t x c)) = groupsConsistent (attributes c)"
  by (simp add: group_defs emit_tellWithCard_def responseReady_def)

lemma gc_state [simp]: "attributes (c\<lparr>state := st\<rparr>) = attributes c"
  by simp

lemma gc_emitStartOver: "groupsConsistent (attributesOf (emitStartOver c))"
  by (simp add: emitStartOver_def emitWithState_LaunchRequest_def session_LaunchRequest_def
        Let_def resetAttributes_def)
     (simp add: group_defs)

lemma gc_roomFound:
  "groupsConsistent (attributesOf (roomFound res)) = groupsConsistent (attributes (snd res))"
  by (auto simp: roomFound_def Let_def split: prod.splits promise.splits option.splits)

lemma gc_getRoom:
  assumes "groupsConsistent (attributes c)" "windowSet (attributes c)"
  shows "groupsConsistent (attributes (snd (getRoom e c)))"
proof -
  have "groupsConsistent (attributes (storeCreds cr c))" for cr
    using assms by (cases cr) (simp_all add: storeCreds_def group_defs)
  with assms(1) show ?thesis
    by (auto simp: getRoom_def split: sum.splits promise.splits option.splits prod.splits)
qed

lemma gc_setDuration:
  assumes "groupsConsistent (attributes c)"
  shows "groupsConsistent (attributes (setDuration e d c))"
    and "windowSet (attributes (setDuration e d c))"
  using assms by (simp_all add: setDuration_def Let_def group_defs)

lemma gc_DurationIntent:
  "groupsConsistent (attributes c) \<Longrightarrow> groupsConsistent (attributesOf (timeMode_DurationIntent e rq c))"
  by (simp add: timeMode_DurationIntent_def gc_roomFound gc_getRoom gc_setDuration split: option.splits)

lemma gc_BookIntent:
  "groupsConsistent (attributes c) \<Longrightarrow> groupsConsistent (attributesOf (confirmMode_BookIntent e c))"
  by (simp add: confirmMode_BookIntent_def split: sum.splits promise.splits)

lemma gc_handler:
  assumes "groupsConsistent a"
  shows "groupsConsistent (attributesOf (handler e rq a))"
proof (cases "STATE a")
  case Blank
  with assms show ?thesis
    by (cases "eventString rq")
       (simp_all add: handler_def emitRepeat_def session_LaunchRequest_def session_HelpIntent_def
          session_SessionEndedRequest_def session_BookIntent_def session_Unhandled_def)
next
  case TIMEMODE
  with assms show ?thesis
    by (cases "eventString rq")
       (simp_all add: handler_def emitRepeat_def timeMode_HelpIntent_def timeMode_Unhandled_def
          session_SessionEndedRequest_def gc_emitStartOver gc_DurationIntent)
next
  case CONFIRMMODE
  with assms show ?thesis
    by (cases "eventString rq")
       (simp_all add: handler_def emitRepeat_def confirmMode_HelpIntent_def confirmMode_Unhandled_def
          session_SessionEndedRequest_def gc_emitStartOver gc_BookIntent emitWithState_BookIntent_def)
qed

text \<open>
  C4, as stated, fails: the six attributes are not written as one group. After "book"
  and a half-hour request whose directory query is refused, the session holds
  \<open>startTime\<close>, \<open>endTime\<close> and \<open>duration\<close> (written by \<open>setDuration\<close> before the
  lookup) and no owner.
\<close>

theorem C4_partial_group_counterexample:
  "reachable failedLookupSession \<and> startTime failedLookupSession = ISO 1490000000000 \<and>
   ownerName failedLookupSession = Undefined \<and> \<not> allSetOrUnset failedLookupSession"
  by (simp add: reachable_examples)
     (simp add: failedLookupSession_eq newSession_def allSetOrUnset_def group_defs)

text \<open>
  C4, amended. In every session reachable from a new one, \<open>ownerAddress\<close>,
  \<open>ownerName\<close> and \<open>roomName\<close> are all set or all unset, \<open>startTime\<close>, \<open>endTime\<close>
  and \<open>duration\<close> are all set or all unset, and the owner group is set only when the
  window group is.
\<close>

theorem C4_groups_consistent:
  "reachable a \<Longrightarrow> groupsConsistent a"
proof (induction rule: reachable.induct)
  case start
  show ?case by (simp add: newSession_def group_defs)
next
  case (step a e rq)
  then show ?case by (simp add: gc_handler)
qed

theorem C4_groups_consistent_witness:
  "reachable roomFoundSession \<and> groupsConsistent roomFoundSession \<and>
   ownerName roomFoundSession = Str ''Room A''"
  using C4_groups_consistent [of roomFoundSession]
  by (simp add: reachable_examples) (simp add: roomFoundSession_eq)

subsection \<open>Restart\<close>

lemma startOver_outcome:
  "emitStartOver c = Responded
     (Ask (T ''WELCOME_MESSAGE'' [T ''BUSINESS_NAME'' []]) (T ''WELCOME_REPROMPT'' [T ''SKILL_NAME'' []]))
     (newSession\<lparr>speechOutput := T ''WELCOME_MESSAGE'' [T ''BUSINESS_NAME'' []],
                 repromptSpeech := T ''WELCOME_REPROMPT'' [T ''SKILL_NAME'' []]\<rparr>)"
  by (cases c; cases "attributes c")
     (simp add: emitStartOver_def emitWithState_LaunchRequest_def session_LaunchRequest_def
        resetAttributes_def emitAsk_eq responseReady_def newSession_def Let_def)

lemma restart_in_blank_state_unhandled:
  "STATE a = Blank \<Longrightarrow>
   handler e (intent AMAZON_StartOverIntent) a = Responded
     (Ask (T ''UNHANDLED_MESSAGE'' []) (T ''UNHANDLED_REPROMPT'' []))
     (a\<lparr>speechOutput := T ''UNHANDLED_MESSAGE'' [], repromptSpeech := T ''UNHANDLED_REPROMPT'' []\<rparr>)"
  by (simp add: handler_def intent_def session_Unhandled_def emitAsk_eq responseReady_def)

text \<open>
  C5, as stated, fails: a restart during confirmation leaves the session in the blank
  state with the welcome prompt, not in the duration-collecting state with the prompt of
  BookIntent.
\<close>

theorem C5_restart_state_counterexample:
  "STATE roomFoundSession = CONFIRMMODE \<and>
   STATE (attributesOf (handler exampleEnv (intent AMAZON_StartOverIntent) roomFoundSession)) = Blank \<and>
   handler exampleEnv (intent AMAZON_StartOverIntent) roomFoundSession \<noteq>
   handler exampleEnv (intent BookIntent) newSession"
  by (simp add: roomFoundSession_eq handler_def intent_def startOver_outcome newSession_def
      session_BookIntent_def emitAsk_eq responseReady_def)

text \<open>
  C5, amended. In \<open>TIMEMODE\<close> and in \<open>CONFIRMMODE\<close> the restart intent clears every
  booking attribute, sets the state to the blank one and emits LaunchRequest: the
  response is the welcome prompt, and the session is a new one holding that prompt.
\<close>

theorem C5_restart_resets_to_blank:
  assumes "STATE a = TIMEMODE \<or> STATE a = CONFIRMMODE"
    and "eventString rq = AMAZON_StartOverIntent"
  shows "handler e rq a = Responded
     (Ask (T ''WELCOME_MESSAGE'' [T ''BUSINESS_NAME'' []]) (T ''WELCOME_REPROMPT'' [T ''SKILL_NAME'' []]))
     (newSession\<lparr>speechOutput := T ''WELCOME_MESSAGE'' [T ''BUSINESS_NAME'' []],
                 repromptSpeech := T ''WELCOME_REPROMPT'' [T ''SKILL_NAME'' []]\<rparr>)"
  using assms by (auto simp: handler_def startOver_outcome)

theorem C5_restart_resets_to_blank_witness:
  "STATE timeModeSession = TIMEMODE \<and>
   handler exampleEnv (intent AMAZON_StartOverIntent) timeModeSession = Responded
     (Ask (T ''WELCOME_MESSAGE'' [T ''BUSINESS_NAME'' []]) (T ''WELCOME_REPROMPT'' [T ''SKILL_NAME'' []]))
     \<lparr>STATE = Blank, ownerAddress = Undefined, ownerName = Undefined, roomName = Undefined,
      startTime = Undefined, endTime = Undefined, duration = Undefined,
      speechOutput = T ''WELCOME_MESSAGE'' [T ''BUSINESS_NAME'' []],
      repromptSpeech = T ''WELCOME_REPROMPT'' [T ''SKILL_NAME'' []]\<rparr>"
  using C5_restart_resets_to_blank [of timeModeSession "intent AMAZON_StartOverIntent" exampleEnv]
  by (simp add: timeModeSession_eq newSession_def intent_def)

subsection \<open>The duration\<close>

text \<open>
  C6. In \<open>TIMEMODE\<close>, a duration of more than zero and at most two hours goes on to
  \<open>setDuration\<close> and \<open>getRoom\<close>; one of at most zero is answered with the
  "unhandled" prompt and one of more than two hours with the "too long" prompt, both as
  questions that keep the session open, with the state still \<open>TIMEMODE\<close>.
\<close>

theorem C6_duration_bounds:
  assumes "STATE a = TIMEMODE" and "eventString rq = DurationIntent"
    and "duration_of e (Duration rq) = Some d"
  shows "(0 < asMilliseconds d \<and> asMilliseconds d \<le> 7200000 \<longrightarrow>
            handler e rq a = roomFound (getRoom e (setDuration e d \<lparr>attributes = a, state = TIMEMODE\<rparr>))) \<and>
         (asMilliseconds d \<le> 0 \<longrightarrow>
            handler e rq a = Responded
              (Ask (T ''TIME_UNHANDLED_MESSAGE'' []) (T ''TIME_UNHANDLED_REPROMPT'' []))
              (a\<lparr>speechOutput := T ''TIME_UNHANDLED_MESSAGE'' [],
                 repromptSpeech := T ''TIME_UNHANDLED_REPROMPT'' []\<rparr>)) \<and>
         (7200000 < asMilliseconds d \<longrightarrow>
            handler e rq a = Responded
              (Ask (T ''TIME_TOO_LONG_MESSAGE'' []) (T ''TIME_TOO_LONG_REPROMPT'' []))
              (a\<lparr>speechOutput := T ''TIME_TOO_LONG_MESSAGE'' [],
                 repromptSpeech := T ''TIME_TOO_LONG_REPROMPT'' []\<rparr>)) \<and>
         (asMilliseconds d \<le> 0 \<or> 7200000 < asMilliseconds d \<longrightarrow>
            STATE (attributesOf (handler e rq a)) = TIMEMODE)"
proof -
  have h: "handler e rq a = timeMode_DurationIntent e rq \<lparr>attributes = a, state = TIMEMODE\<rparr>"
    using assms(1,2) by (simp add: handler_def)
  have keep: "responseReady \<lparr>attributes = a\<lparr>speechOutput := s, repromptSpeech := r\<rparr>, state = TIMEMODE\<rparr>
                = a\<lparr>speechOutput := s, repromptSpeech := r\<rparr>" for s r
    using assms(1) by (cases a) (simp add: responseReady_def)
  show ?thesis
    using assms(1,3)
    by (auto simp: h timeMode_DurationIntent_def asHours_bounds emitAsk_eq keep)
qed

theorem C6_duration_bounds_witness:
  "handler exampleEnv (durationRequest ''PT30M'') timeModeSession
     = roomFound (getRoom exampleEnv (setDuration exampleEnv \<lparr>asMilliseconds = 1800000\<rparr>
         \<lparr>attributes = timeModeSession, state = TIMEMODE\<rparr>)) \<and>
   handler exampleEnv (durationRequest ''PT3H'') timeModeSession
     = Responded (Ask (T ''TIME_TOO_LONG_MESSAGE'' []) (T ''TIME_TOO_LONG_REPROMPT'' []))
         (timeModeSession\<lparr>speechOutput := T ''TIME_TOO_LONG_MESSAGE'' [],
            repromptSpeech := T ''TIME_TOO_LONG_REPROMPT'' []\<rparr>) \<and>
   handler exampleEnv (durationRequest ''soon'') timeModeSession
     = Responded (Ask (T ''TIME_UNHANDLED_MESSAGE'' []) (T ''TIME_UNHANDLED_REPROMPT'' []))
         (timeModeSession\<lparr>speechOutput := T ''TIME_UNHANDLED_MESSAGE'' [],
            repromptSpeech := T ''TIME_UNHANDLED_REPROMPT'' []\<rparr>)"
proof -
  have st: "STATE timeModeSession = TIMEMODE" by (simp add: timeModeSession_eq)
  have ev: "eventString (durationRequest s) = DurationIntent" for s
    by (simp add: durationRequest_def)
  have d1: "duration_of exampleEnv (Duration (durationRequest ''PT30M'')) = Some \<lparr>asMilliseconds = 1800000\<rparr>"
    and d2: "duration_of exampleEnv (Duration (durationRequest ''PT3H'')) = Some \<lparr>asMilliseconds = 10800000\<rparr>"
    and d3: "duration_of exampleEnv (Duration (durationRequest ''soon'')) = Some \<lparr>asMilliseconds = 0\<rparr>"
    by (simp_all add: durationRequest_def exampleEnv_def exampleDuration_def)
  from C6_duration_bounds [OF st ev d1] C6_duration_bounds [OF st ev d2]
    C6_duration_bounds [OF st ev d3]
  show ?thesis by simp
qed

text \<open>
  The else branch of DurationIntent asks with \<open>TIME_UNHANDLED_MESSAGE\<close> as speech and
  as reprompt, and no other branch does: that response is given exactly when
  \<open>moment.duration\<close> returns a falsy value. A span of zero length gets the prompt of the
  branch for durations of at most zero. What \<open>moment.duration\<close> returns for a given
  string is decided by moment.js, which is not part of the sources.
\<close>

lemma durationIntent_else_branch:
  assumes "STATE a = TIMEMODE" and "eventString rq = DurationIntent"
  shows "((\<exists>a'. handler e rq a = Responded
              (Ask (T ''TIME_UNHANDLED_MESSAGE'' []) (T ''TIME_UNHANDLED_MESSAGE'' [])) a')
            = (duration_of e (Duration rq) = None)) \<and>
         (\<forall>d. duration_of e (Duration rq) = Some d \<and> asMilliseconds d = 0 \<longrightarrow>
            handler e rq a = Responded
              (Ask (T ''TIME_UNHANDLED_MESSAGE'' []) (T ''TIME_UNHANDLED_REPROMPT'' []))
              (a\<lparr>speechOutput := T ''TIME_UNHANDLED_MESSAGE'' [],
                 repromptSpeech := T ''TIME_UNHANDLED_REPROMPT'' []\<rparr>))"
proof -
  have h: "handler e rq a = timeMode_DurationIntent e rq \<lparr>attributes = a, state = TIMEMODE\<rparr>"
    using assms by (simp add: handler_def)
  have keep: "responseReady \<lparr>attributes = a\<lparr>speechOutput := s, repromptSpeech := r\<rparr>, state = TIMEMODE\<rparr>
                = a\<lparr>speechOutput := s, repromptSpeech := r\<rparr>" for s r
    using assms(1) by (cases a) (simp add: responseReady_def)
  have rf: "roomFound res \<noteq> Responded
              (Ask (T ''TIME_UNHANDLED_MESSAGE'' []) (T ''TIME_UNHANDLED_MESSAGE'' [])) a'" for res a'
    by (auto simp: roomFound_def emitAsk_eq emit_tellWithCard_def Let_def
        split: prod.splits promise.splits option.splits)
  show ?thesis
    by (auto simp: h timeMode_DurationIntent_def asHours_bounds emitAsk_eq keep rf
        split: option.splits)
qed

lemma zero_duration_example:
  "duration_of exampleEnv (Duration (durationRequest ''soon'')) = Some \<lparr>asMilliseconds = 0\<rparr> \<and>
   handler exampleEnv (durationRequest ''soon'') timeModeSession
     = Responded (Ask (T ''TIME_UNHANDLED_MESSAGE'' []) (T ''TIME_UNHANDLED_REPROMPT'' []))
         (timeModeSession\<lparr>speechOutput := T ''TIME_UNHANDLED_MESSAGE'' [],
            repromptSpeech := T ''TIME_UNHANDLED_REPROMPT'' []\<rparr>)"
proof -
  have st: "STATE timeModeSession = TIMEMODE" by (simp add: timeModeSession_eq)
  have ev: "eventString (durationRequest ''soon'') = DurationIntent"
    by (simp add: durationRequest_def)
  have d: "duration_of exampleEnv (Duration (durationRequest ''soon'')) = Some \<lparr>asMilliseconds = 0\<rparr>"
    by (simp add: durationRequest_def exampleEnv_def exampleDuration_def)
  from durationIntent_else_branch [OF st ev, of exampleEnv] d
  show ?thesis by simp
qed

subsection \<open>Failures of remote calls\<close>

text \<open>
  C7. Each callback parses the body before it looks at \<open>err\<close>. After a transport
  failure there is no body, \<open>JSON.parse\<close> throws, and the exception leaves the callback:
  the promise is not rejected and no error response is built, in the directory query,
  the availability query and the booking write alike.
\<close>

theorem C7_parse_before_error_check:
  "getCalendars transportFailure = Inl SyntaxError \<and>
   calendarView_callback roomA transportFailure Pending = Inl SyntaxError \<and>
   postRoom (Str ''Room A'') transportFailure = Inl SyntaxError \<and>
   thrown (handler (exampleEnv\<lparr>calendars_reply := transportFailure\<rparr>)
             (durationRequest ''PT30M'') timeModeSession) = Some SyntaxError \<and>
   thrown (handler (exampleEnv\<lparr>post_reply := transportFailure\<rparr>)
             (intent BookIntent) roomFoundSession) = Some SyntaxError"
  by (simp add: getCalendars_def calendarView_callback_def postRoom_def transportFailure_def
      handler_def durationRequest_def intent_def timeModeSession_eq roomFoundSession_eq
      newSession_def timeMode_DurationIntent_def asHours_bounds exampleEnv_def exampleDuration_def
      getRoom_def roomFound_def confirmMode_BookIntent_def)
subsection \<open>Repeat\<close>

lemma ps_emitAsk [simp]: "promptStored (emitAsk s r c)"
  by (simp add: promptStored_def emitAsk_eq responseReady_def)

lemma ps_tell [simp]: "promptStored (emit_tell s c)" "promptStored (emit_tellWithCard s t x c)"
  by (simp_all add: promptStored_def emit_tell_def emit_tellWithCard_def)

lemma ps_roomFound: "promptStored (roomFound res)"
  by (auto simp: roomFound_def Let_def promptStored_def [of "NoResponse _"]
      promptStored_def [of "Uncaught _ _"] split: prod.splits promise.splits option.splits)

lemma ps_DurationIntent: "promptStored (timeMode_DurationIntent e rq c)"
  by (simp add: timeMode_DurationIntent_def ps_roomFound split: option.splits)

lemma ps_BookIntent: "promptStored (confirmMode_BookIntent e c)"
  by (simp add: confirmMode_BookIntent_def promptStored_def [of "NoResponse _"]
      promptStored_def [of "Uncaught _ _"] split: sum.splits promise.splits)

lemma ps_handler: "promptStored (handler e rq a)"
proof (cases "STATE a")
  case Blank
  then show ?thesis
    by (cases "eventString rq")
       (simp_all add: handler_def emitRepeat_def session_LaunchRequest_def session_HelpIntent_def
          session_SessionEndedRequest_def session_BookIntent_def session_Unhandled_def)
next
  case TIMEMODE
  then show ?thesis
    by (cases "eventString rq")
       (simp_all add: handler_def emitRepeat_def timeMode_HelpIntent_def timeMode_Unhandled_def
          session_SessionEndedRequest_def emitStartOver_def emitWithState_LaunchRequest_def
          resetAttributes_def session_LaunchRequest_def ps_DurationIntent Let_def)
next
  case CONFIRMMODE
  then show ?thesis
    by (cases "eventString rq")
       (simp_all add: handler_def emitRepeat_def confirmMode_HelpIntent_def confirmMode_Unhandled_def
          session_SessionEndedRequest_def emitStartOver_def emitWithState_LaunchRequest_def
          resetAttributes_def session_LaunchRequest_def ps_BookIntent emitWithState_BookIntent_def
          Let_def)
qed

lemma repeat_reemits:
  "handler e \<lparr>eventString = AMAZON_RepeatIntent, Duration = sl\<rparr> a
     = Responded (Ask (speechOutput a) (repromptSpeech a)) a"
  by (cases a; cases "STATE a")
     (simp_all add: handler_def emitRepeat_def emitAsk_eq responseReady_def)

text \<open>
  C8. Whatever the state and the request: when an invocation asks, the speech and the
  reprompt it asks with are the ones stored in the session it leaves, and a repeat
  intent on that session asks with exactly these two again and leaves the session,
  state included, as it was.
\<close>

theorem C8_repeat_reproduces_prompt:
  assumes "handler e rq a = Responded (Ask s r) a'"
  shows "speechOutput a' = s \<and> repromptSpeech a' = r \<and>
         handler e' \<lparr>eventString = AMAZON_RepeatIntent, Duration = sl\<rparr> a' = Responded (Ask s r) a'"
proof -
  have "promptStored (handler e rq a)" by (rule ps_handler)
  with assms have "speechOutput a' = s \<and> repromptSpeech a' = r"
    by (simp add: promptStored_def)
  then show ?thesis by (simp add: repeat_reemits)
qed

theorem C8_repeat_reproduces_prompt_witness:
  "handler exampleEnv (durationRequest ''PT30M'') timeModeSession
     = Responded (Ask (T ''ROOM_AVAILABLE_MESSAGE'' [Str ''Room A''])
                      (T ''ROOM_AVAILABLE_REPROMPT'' [Str ''Room A''])) roomFoundSession \<and>
   handler exampleEnv \<lparr>eventString = AMAZON_RepeatIntent, Duration = None\<rparr> roomFoundSession
     = Responded (Ask (T ''ROOM_AVAILABLE_MESSAGE'' [Str ''Room A''])
                      (T ''ROOM_AVAILABLE_REPROMPT'' [Str ''Room A''])) roomFoundSession"
  using C8_repeat_reproduces_prompt [of exampleEnv "durationRequest ''PT30M''" timeModeSession
      "T ''ROOM_AVAILABLE_MESSAGE'' [Str ''Room A'']" "T ''ROOM_AVAILABLE_REPROMPT'' [Str ''Room A'']"
      roomFoundSession exampleEnv None]
  by (simp add: roomFound_turn roomFoundSession_eq)

end
